theory Spec2Isabelle
  imports Main "HOL-Library.Sublist"
begin

section \<open>The real-estate chaincode (src/chaincode.go)\<close>

text \<open>
  The chaincode keeps three kinds of records (property, condition of contract, contract)
  as JSON documents in the key-value world state of a ledger. Every operation receives
  the ledger stub and a list of string arguments and answers with a response.

  Reading of the source. The Go text of src/chaincode.go is not accepted by a Go compiler
  as it stands; the embedding follows its statements in order and fixes the following
  readings, each marked again at the definition it concerns.
  \<^item> The struct fields \<open>Property_num\<close> and \<open>Condition_num\<close> are declared \<open>int\<close>, but
    every value stored in them is the result of \<open>strings.ToLower\<close>, and the same
    variable is the (string) key of \<open>PutState\<close>. They are strings here.
  \<^item> In \<open>initConditon\<close> and \<open>CreateContract\<close> the block opened by the
    \<open>if err != nil {\<close> after \<open>json.Marshal\<close> has no closing brace. The indentation
    puts the \<open>PutState\<close> that follows after the block, and so does the embedding.
  \<^item> \<open>readValue\<close> uses the identifier \<open>name\<close>, and \<open>CreateContract\<close> the identifiers
    \<open>conditionNum\<close>, \<open>seller\<close>, \<open>buyer\<close> and \<open>deposit\<close>, none of which is bound
    in the function. They are parameters of the embedding (record \<open>unbound\<close>).
  \<^item> The struct \<open>contract\<close> is declared and never used: \<open>CreateContract\<close> builds a
    \<open>conditionOfContract\<close>. It has no counterpart here.
  \<^item> Logging (\<open>fmt.Println\<close>) is left out.
\<close>

subsection \<open>Strings: strings.ToLower and strconv.Atoi\<close>

text \<open>
  A Go string is a sequence of bytes, here a \<^typ>\<open>string\<close>. \<open>strings.ToLower\<close> maps the
  bytes \<open>A\<close> to \<open>Z\<close> to \<open>a\<close> to \<open>z\<close>. On input with bytes beyond ASCII Go lower-cases
  by Unicode code point; the embedding leaves such bytes as they are.
\<close>

definition toLowerByte :: "char \<Rightarrow> char" where
  "toLowerByte c =
     (case map_of (zip ''ABCDEFGHIJKLMNOPQRSTUVWXYZ'' ''abcdefghijklmnopqrstuvwxyz'') c of
        Some l \<Rightarrow> l
      | None \<Rightarrow> c)"

definition ToLower :: "string \<Rightarrow> string" where
  "ToLower s = map toLowerByte s"

text \<open>
  \<open>strconv.Atoi\<close>: an optional sign, then at least one decimal digit and nothing else;
  the value has to fit the type \<open>int\<close>, taken as 64 bits wide. \<open>None\<close> stands for the
  non-nil error.
\<close>

definition isDigit :: "char \<Rightarrow> bool" where
  "isDigit c = ((48::nat) \<le> of_char c \<and> of_char c \<le> (57::nat))"

definition digitVal :: "char \<Rightarrow> int" where
  "digitVal c = int (of_char c) - 48"

definition Atoi :: "string \<Rightarrow> int option" where
  "Atoi s =
     (let neg = (case s of [] \<Rightarrow> False | c # _ \<Rightarrow> c = CHR ''-'');
          ds = (case s of [] \<Rightarrow> []
                | c # r \<Rightarrow> if c = CHR ''-'' \<or> c = CHR ''+'' then r else s)
      in if ds = [] then None
         else if list_all isDigit ds then
           (let n = foldl (\<lambda>a c. a * 10 + digitVal c) 0 ds;
                v = (if neg then - n else n)
            in if v < - (2 ^ 63) \<or> 2 ^ 63 - 1 < v then None else Some v)
         else None)"

subsection \<open>Stored documents: encoding/json\<close>

text \<open>
  The bytes kept in the ledger are modelled by the JSON value they spell. \<open>json.Marshal\<close>
  of a struct gives the object of its tagged fields in declaration order; it has no error
  on structs of strings and integers. Strings are taken as text that the encoding keeps as
  it is (Go replaces bytes that are not valid UTF-8).
\<close>

datatype json = JNull | JNumber int | JString string | JObject "(string \<times> json) list"

type_synonym bytes = json

record property =
  ObjectType :: string
  Property_num :: string
  Name :: string
  Address :: string
  Owner :: string

record conditionOfContract =
  cObjectType :: string
  Condition_num :: string
  cProperty_num :: string
  Seller :: string
  Buyer :: string
  Deposit :: int

definition Marshal_property :: "property \<Rightarrow> bytes" where
  "Marshal_property p = JObject
     [(''docType'', JString (ObjectType p)),
      (''property_num'', JString (Property_num p)),
      (''name'', JString (Name p)),
      (''address'', JString (Address p)),
      (''owner'', JString (Owner p))]"

definition Marshal_condition :: "conditionOfContract \<Rightarrow> bytes" where
  "Marshal_condition c = JObject
     [(''docType'', JString (cObjectType c)),
      (''condition_num'', JString (Condition_num c)),
      (''property_num'', JString (cProperty_num c)),
      (''seller'', JString (Seller c)),
      (''buyer'', JString (Buyer c)),
      (''deposit'', JNumber (Deposit c))]"

text \<open>
  \<open>json.Unmarshal\<close> into a struct: the value has to be an object (or \<open>null\<close>, which
  changes nothing). The members are taken in order; a member whose key equals a field's
  tag, letter case ignored, is stored in that field, any other member is skipped. A
  string field takes a JSON string, keeps its value on \<open>null\<close>, and any other value is
  the error that \<open>Unmarshal\<close> returns (its text is shortened to \<open>unmarshalError\<close>).
\<close>

definition decodeString :: "json \<Rightarrow> string \<Rightarrow> string option" where
  "decodeString v cur =
     (case v of JString s \<Rightarrow> Some s | JNull \<Rightarrow> Some cur | _ \<Rightarrow> None)"

definition unmarshalError :: string where
  "unmarshalError = ''json: cannot unmarshal value into Go struct field''"

fun Unmarshal_members :: "(string \<times> json) list \<Rightarrow> property \<Rightarrow> string + property" where
  "Unmarshal_members [] p = Inr p"
| "Unmarshal_members ((k, v) # kvs) p =
     (if ToLower k = ''doctype'' then
        (case decodeString v (ObjectType p) of None \<Rightarrow> Inl unmarshalError
         | Some s \<Rightarrow> Unmarshal_members kvs (p\<lparr>ObjectType := s\<rparr>))
      else if ToLower k = ''property_num'' then
        (case decodeString v (Property_num p) of None \<Rightarrow> Inl unmarshalError
         | Some s \<Rightarrow> Unmarshal_members kvs (p\<lparr>Property_num := s\<rparr>))
      else if ToLower k = ''name'' then
        (case decodeString v (Name p) of None \<Rightarrow> Inl unmarshalError
         | Some s \<Rightarrow> Unmarshal_members kvs (p\<lparr>Name := s\<rparr>))
      else if ToLower k = ''address'' then
        (case decodeString v (Address p) of None \<Rightarrow> Inl unmarshalError
         | Some s \<Rightarrow> Unmarshal_members kvs (p\<lparr>Address := s\<rparr>))
      else if ToLower k = ''owner'' then
        (case decodeString v (Owner p) of None \<Rightarrow> Inl unmarshalError
         | Some s \<Rightarrow> Unmarshal_members kvs (p\<lparr>Owner := s\<rparr>))
      else Unmarshal_members kvs p)"

definition Unmarshal_property :: "bytes \<Rightarrow> property \<Rightarrow> string + property" where
  "Unmarshal_property b p =
     (case b of JNull \<Rightarrow> Inr p
      | JObject kvs \<Rightarrow> Unmarshal_members kvs p
      | _ \<Rightarrow> Inl unmarshalError)"

text \<open>
  Modelled from the spec: the struct type \<open>marble\<close> that \<open>transferProperty\<close> decodes into
  (\<open>propertyToTransfer := marble{}\<close>) is declared nowhere in the repository. The spec has
  the transfer decode the stored Property record, and the earlier revision of the function
  (src/unnamed/part_000) declares \<open>property{}\<close> at this place; the zero value is that of
  the \<open>property\<close> struct.
\<close>

definition marble_zero :: property where
  "marble_zero = \<lparr>ObjectType = [], Property_num = [], Name = [], Address = [], Owner = []\<rparr>"

subsection \<open>The ledger stub and the response\<close>

text \<open>
  \<open>shim.ChaincodeStubInterface\<close> belongs to the platform. Its world state is a map from
  keys to stored documents; \<open>GetState\<close> of an absent key gives \<open>nil\<close> (\<open>None\<close>) with no
  error. The platform may refuse an access with an error; which accesses it refuses is a
  parameter of the stub (\<open>getFails\<close>, \<open>putFails\<close>: the error text, if any).
\<close>

record stub =
  world :: "string \<rightharpoonup> bytes"
  getFails :: "string \<Rightarrow> string option"
  putFails :: "string \<Rightarrow> bytes \<Rightarrow> string option"

definition GetState :: "stub \<Rightarrow> string \<Rightarrow> string + bytes option" where
  "GetState st key =
     (case getFails st key of Some e \<Rightarrow> Inl e | None \<Rightarrow> Inr (world st key))"

definition PutState :: "stub \<Rightarrow> string \<Rightarrow> bytes \<Rightarrow> string + stub" where
  "PutState st key v =
     (case putFails st key v of Some e \<Rightarrow> Inl e
      | None \<Rightarrow> Inr (st\<lparr>world := (world st)(key \<mapsto> v)\<rparr>))"

text \<open>\<open>shim.Success(payload)\<close> and \<open>shim.Error(msg)\<close>.\<close>

datatype response = Success "bytes option" | Error string

text \<open>The identifiers that the source uses without binding them.\<close>

record unbound =
  u_name :: string
  u_conditionNum :: string
  u_seller :: string
  u_buyer :: string
  u_deposit :: int

subsection \<open>The operations\<close>

definition Init :: "stub \<Rightarrow> response \<times> stub" where
  "Init st = (Success None, st)"

definition initProperty :: "stub \<Rightarrow> string list \<Rightarrow> response \<times> stub" where
  "initProperty st args =
     (if length args \<noteq> 4 then (Error ''Incorrect number of arguments. Expecting 4'', st)
      else if length (args ! 0) \<le> 0 then (Error ''1st argument must be a non-empty string'', st)
      else if length (args ! 1) \<le> 0 then (Error ''2nd argument must be a non-empty string'', st)
      else if length (args ! 2) \<le> 0 then (Error ''3rd argument must be a non-empty string'', st)
      else if length (args ! 3) \<le> 0 then (Error ''4th argument must be a non-empty string'', st)
      else
        let propertyNum = ToLower (args ! 0);
            propertyName = ToLower (args ! 1);
            address = ToLower (args ! 2);
            owner = ToLower (args ! 3);
            objectType = ''property'';
            property = \<lparr>ObjectType = objectType, Property_num = propertyNum,
                        Name = propertyName, Address = address, Owner = owner\<rparr>;
            propertyJSONasBytes = Marshal_property property
        in case PutState st propertyNum propertyJSONasBytes of
             Inl err \<Rightarrow> (Error err, st)
           | Inr st' \<Rightarrow> (Success None, st'))"

definition initConditon :: "stub \<Rightarrow> string list \<Rightarrow> response \<times> stub" where
  "initConditon st args =
     (if length args \<noteq> 5 then (Error ''Incorrect number of arguments. Expecting 5'', st)
      else if length (args ! 0) \<le> 0 then (Error ''1st argument must be a non-empty string'', st)
      else if length (args ! 1) \<le> 0 then (Error ''2nd argument must be a non-empty string'', st)
      else if length (args ! 2) \<le> 0 then (Error ''3rd argument must be a non-empty string'', st)
      else if length (args ! 3) \<le> 0 then (Error ''4th argument must be a non-empty string'', st)
      else if length (args ! 4) \<le> 0 then (Error ''5th argument must be a non-empty string'', st)
      else
        let conditionNum = ToLower (args ! 0);
            propertyNum = ToLower (args ! 1);
            seller = ToLower (args ! 2);
            buyer = ToLower (args ! 3)
        in case Atoi (args ! 4) of
             None \<Rightarrow> (Error ''5th argument must be a numeric string'', st)
           | Some deposit \<Rightarrow>
               let objectType = ''condition'';
                   condition = \<lparr>cObjectType = objectType, Condition_num = conditionNum,
                                cProperty_num = propertyNum, Seller = seller, Buyer = buyer,
                                Deposit = deposit\<rparr>;
                   conditionJSONasBytes = Marshal_condition condition
               in (case PutState st conditionNum conditionJSONasBytes of
                     Inl err \<Rightarrow> (Error err, st)
                   | Inr st' \<Rightarrow> (Success None, st')))"

text \<open>
  \<open>CreateContract\<close> binds its second argument to \<open>propertyNum\<close> and builds a
  \<open>conditionOfContract\<close> (not a \<open>contract\<close>) from it and from the unbound identifiers.
\<close>

definition CreateContract :: "unbound \<Rightarrow> stub \<Rightarrow> string list \<Rightarrow> response \<times> stub" where
  "CreateContract u st args =
     (if length args \<noteq> 2 then (Error ''Incorrect number of arguments. Expecting 2'', st)
      else if length (args ! 0) \<le> 0 then (Error ''1st argument must be a non-empty string'', st)
      else if length (args ! 1) \<le> 0 then (Error ''2nd argument must be a non-empty string'', st)
      else
        let contractNum = ToLower (args ! 0);
            propertyNum = ToLower (args ! 1);
            objectType = ''contract'';
            contract = \<lparr>cObjectType = objectType, Condition_num = u_conditionNum u,
                        cProperty_num = propertyNum, Seller = u_seller u, Buyer = u_buyer u,
                        Deposit = u_deposit u\<rparr>;
            contractJSONasBytes = Marshal_condition contract
        in case PutState st contractNum contractJSONasBytes of
             Inl err \<Rightarrow> (Error err, st)
           | Inr st' \<Rightarrow> (Success None, st'))"

definition readValue :: "unbound \<Rightarrow> stub \<Rightarrow> string list \<Rightarrow> response \<times> stub" where
  \<open>readValue u st args =
     (if length args \<noteq> 1
      then (Error ''Incorrect number of arguments. Expecting number of the value to query'', st)
      else
        let key = args ! 0
        in case GetState st key of
             Inl err \<Rightarrow> (Error (''{"Error":"Failed to get value for '' @ u_name u @ ''"}''), st)
           | Inr None \<Rightarrow> (Error (''{"Error":"Value does not exist: '' @ u_name u @ ''"}''), st)
           | Inr (Some valAsbytes) \<Rightarrow> (Success (Some valAsbytes), st))\<close>

definition transferProperty :: "stub \<Rightarrow> string list \<Rightarrow> response \<times> stub" where
  "transferProperty st args =
     (if length args < 2 then (Error ''Incorrect number of arguments. Expecting 2'', st)
      else
        let propertyNum = args ! 0;
            newOwner = ToLower (args ! 1)
        in case GetState st propertyNum of
             Inl err \<Rightarrow> (Error (''Failed to get property:'' @ err), st)
           | Inr None \<Rightarrow> (Error ''Property does not exist'', st)
           | Inr (Some propertyAsBytes) \<Rightarrow>
               (case Unmarshal_property propertyAsBytes marble_zero of
                  Inl err \<Rightarrow> (Error err, st)
                | Inr propertyToTransfer \<Rightarrow>
                    let propertyJSONasBytes =
                          Marshal_property (propertyToTransfer\<lparr>Owner := newOwner\<rparr>)
                    in (case PutState st propertyNum propertyJSONasBytes of
                          Inl err \<Rightarrow> (Error err, st)
                        | Inr st' \<Rightarrow> (Success None, st'))))"

text \<open>\<open>Invoke\<close>: \<open>function\<close> and \<open>args\<close> are what \<open>GetFunctionAndParameters\<close> returns.\<close>

definition Invoke :: "unbound \<Rightarrow> stub \<Rightarrow> string \<Rightarrow> string list \<Rightarrow> response \<times> stub" where
  "Invoke u st function args =
     (if function = ''initProperty'' then initProperty st args
      else if function = ''initConditon'' then initConditon st args
      else if function = ''CreateContract'' then CreateContract u st args
      else if function = ''transferProperty'' then transferProperty st args
      else if function = ''readValue'' then readValue u st args
      else (Error ''Received unknown function invocation'', st))"

subsection \<open>Sample states\<close>

text \<open>
  An empty ledger whose platform refuses nothing, sample values for the unbound identifiers,
  and the ledger that holds one property under the key \<open>p1\<close>.
\<close>

definition stub0 :: stub where
  "stub0 = \<lparr>world = Map.empty, getFails = (\<lambda>_. None), putFails = (\<lambda>_ _. None)\<rparr>"

definition unbound0 :: unbound where
  "unbound0 = \<lparr>u_name = [], u_conditionNum = [], u_seller = [], u_buyer = [], u_deposit = 0\<rparr>"

definition islab :: property where
  "islab = \<lparr>ObjectType = ''property'', Property_num = ''p1'', Name = ''islab'',
             Address = ''seoul'', Owner = ''alice''\<rparr>"

definition stub1 :: stub where
  "stub1 = stub0\<lparr>world := [''p1'' \<mapsto> Marshal_property islab]\<rparr>"

section \<open>Properties\<close>

subsection \<open>Auxiliary facts\<close>

lemma ToLower_Nil_iff: "ToLower s = [] \<longleftrightarrow> s = []"
  by (simp add: ToLower_def)

lemma Unmarshal_Marshal_property: "Unmarshal_property (Marshal_property p) q = Inr p"
  by (cases p)
     (simp add: Unmarshal_property_def Marshal_property_def decodeString_def ToLower_def
        toLowerByte_def)

lemma transferProperty_stored:
  assumes "getFails st k = None" and "world st k = Some (Marshal_property p)"
    and "putFails st k (Marshal_property (p\<lparr>Owner := ToLower newOwner\<rparr>)) = None"
  shows "transferProperty st (k # newOwner # rest) =
           (Success None,
            st\<lparr>world := (world st)(k \<mapsto> Marshal_property (p\<lparr>Owner := ToLower newOwner\<rparr>))\<rparr>)"
  using assms
  by (simp add: transferProperty_def GetState_def PutState_def Unmarshal_Marshal_property)

lemma transferProperty_absent:
  assumes "getFails st k = None" and "world st k = None"
  shows "transferProperty st (k # newOwner # rest) = (Error ''Property does not exist'', st)"
  using assms by (simp add: transferProperty_def GetState_def)

lemma initProperty_invalid:
  assumes "length args \<noteq> 4 \<or> [] \<in> set args"
  shows "\<exists>msg. initProperty st args = (Error msg, st)
           \<and> msg \<in> {''Incorrect number of arguments. Expecting 4'',
                    ''1st argument must be a non-empty string'',
                    ''2nd argument must be a non-empty string'',
                    ''3rd argument must be a non-empty string'',
                    ''4th argument must be a non-empty string''}"
proof (cases "length args = 4")
  case False
  then show ?thesis by (simp add: initProperty_def)
next
  case True
  then obtain a b c d where args: "args = [a, b, c, d]"
    by (auto simp: length_Suc_conv numeral_eq_Suc)
  with assms have "a = [] \<or> b = [] \<or> c = [] \<or> d = []" by auto
  then show ?thesis by (auto simp: initProperty_def args)
qed

lemma initConditon_invalid:
  assumes "length args \<noteq> 5 \<or> [] \<in> set args"
  shows "\<exists>msg. initConditon st args = (Error msg, st)
           \<and> msg \<in> {''Incorrect number of arguments. Expecting 5'',
                    ''1st argument must be a non-empty string'',
                    ''2nd argument must be a non-empty string'',
                    ''3rd argument must be a non-empty string'',
                    ''4th argument must be a non-empty string'',
                    ''5th argument must be a non-empty string''}"
proof (cases "length args = 5")
  case False
  then show ?thesis by (simp add: initConditon_def)
next
  case True
  then obtain a b c d e where args: "args = [a, b, c, d, e]"
    by (auto simp: length_Suc_conv numeral_eq_Suc)
  with assms have "a = [] \<or> b = [] \<or> c = [] \<or> d = [] \<or> e = []" by auto
  then show ?thesis by (auto simp: initConditon_def args)
qed

lemma CreateContract_invalid:
  assumes "length args \<noteq> 2 \<or> [] \<in> set args"
  shows "\<exists>msg. CreateContract u st args = (Error msg, st)
           \<and> msg \<in> {''Incorrect number of arguments. Expecting 2'',
                    ''1st argument must be a non-empty string'',
                    ''2nd argument must be a non-empty string''}"
proof (cases "length args = 2")
  case False
  then show ?thesis by (simp add: CreateContract_def)
next
  case True
  then obtain a b where args: "args = [a, b]"
    by (auto simp: length_Suc_conv numeral_eq_Suc)
  with assms have "a = [] \<or> b = []" by auto
  then show ?thesis by (auto simp: CreateContract_def args)
qed

lemma initProperty_valid:
  assumes "a \<noteq> []" "b \<noteq> []" "c \<noteq> []" "d \<noteq> []"
   and "putFails st (ToLower a) (Marshal_property
           \<lparr>ObjectType = ''property'', Property_num = ToLower a, Name = ToLower b,
              Address = ToLower c, Owner = ToLower d\<rparr>) = None"
  shows "initProperty st [a, b, c, d] = (Success None,
           st\<lparr>world := (world st)(ToLower a \<mapsto> Marshal_property
              \<lparr>ObjectType = ''property'', Property_num = ToLower a, Name = ToLower b,
                 Address = ToLower c, Owner = ToLower d\<rparr>)\<rparr>)"
  using assms by (simp add: initProperty_def PutState_def Let_def)

lemma initConditon_valid:
  assumes "a \<noteq> []" "b \<noteq> []" "c \<noteq> []" "d \<noteq> []" "Atoi e = Some n"
   and "putFails st (ToLower a) (Marshal_condition
           \<lparr>cObjectType = ''condition'', Condition_num = ToLower a, cProperty_num = ToLower b,
              Seller = ToLower c, Buyer = ToLower d, Deposit = n\<rparr>) = None"
  shows "initConditon st [a, b, c, d, e] = (Success None,
           st\<lparr>world := (world st)(ToLower a \<mapsto> Marshal_condition
              \<lparr>cObjectType = ''condition'', Condition_num = ToLower a, cProperty_num = ToLower b,
                 Seller = ToLower c, Buyer = ToLower d, Deposit = n\<rparr>)\<rparr>)"
proof -
  have "e \<noteq> []" using assms(5) by (auto simp: Atoi_def)
  then show ?thesis using assms by (simp add: initConditon_def PutState_def Let_def)
qed

lemma CreateContract_valid:
  assumes "a \<noteq> []" "b \<noteq> []"
   and "putFails st (ToLower a) (Marshal_condition
           \<lparr>cObjectType = ''contract'', Condition_num = u_conditionNum u,
              cProperty_num = ToLower b, Seller = u_seller u, Buyer = u_buyer u,
              Deposit = u_deposit u\<rparr>) = None"
  shows "CreateContract u st [a, b] = (Success None,
           st\<lparr>world := (world st)(ToLower a \<mapsto> Marshal_condition
              \<lparr>cObjectType = ''contract'', Condition_num = u_conditionNum u,
                 cProperty_num = ToLower b, Seller = u_seller u, Buyer = u_buyer u,
                 Deposit = u_deposit u\<rparr>)\<rparr>)"
  using assms by (simp add: CreateContract_def PutState_def Let_def)

lemmas eval_defs =
  stub0_def stub1_def unbound0_def islab_def ToLower_def toLowerByte_def
  Marshal_property_def Marshal_condition_def

subsection \<open>Creation followed by a read\<close>

text \<open>
  Claim C1. After \<open>initProperty\<close> with four non-empty arguments, on a ledger that accepts
  the write and the read, the creation succeeds and \<open>readValue\<close> of the lower-cased
  property number succeeds with the stored document; that document decodes to the record
  whose \<open>docType\<close> is the literal \<open>property\<close> and whose other four fields are the
  lower-cased arguments.
\<close>

theorem initProperty_readValue:
  fixes propertyNum name address owner :: string and st :: stub
  defines "p \<equiv> \<lparr>ObjectType = ''property'', Property_num = ToLower propertyNum,
                  Name = ToLower name, Address = ToLower address, Owner = ToLower owner\<rparr>"
  defines "st' \<equiv> st\<lparr>world := (world st)(ToLower propertyNum \<mapsto> Marshal_property p)\<rparr>"
  assumes "propertyNum \<noteq> []" and "name \<noteq> []" and "address \<noteq> []" and "owner \<noteq> []"
    and "putFails st (ToLower propertyNum) (Marshal_property p) = None"
    and "getFails st (ToLower propertyNum) = None"
  shows "initProperty st [propertyNum, name, address, owner] = (Success None, st')
       \<and> readValue u st' [ToLower propertyNum] = (Success (Some (Marshal_property p)), st')
       \<and> Unmarshal_property (Marshal_property p) marble_zero = Inr p"
proof -
  have "initProperty st [propertyNum, name, address, owner] = (Success None, st')"
    using assms(3-7) unfolding p_def st'_def by (rule initProperty_valid)
  moreover
  have "readValue u st' [ToLower propertyNum] = (Success (Some (Marshal_property p)), st')"
    using assms(8) by (simp add: readValue_def GetState_def st'_def)
  ultimately show ?thesis
    by (simp add: Unmarshal_Marshal_property)
qed

theorem initProperty_readValue_witness:
  "initProperty stub0 [''P1'', ''ISLAB'', ''Seoul'', ''Alice''] = (Success None, stub1)
   \<and> readValue unbound0 stub1 [''p1''] = (Success (Some (Marshal_property islab)), stub1)
   \<and> Unmarshal_property (Marshal_property islab) marble_zero = Inr islab"
  using initProperty_readValue [where propertyNum = "''P1''" and name = "''ISLAB''"
      and address = "''Seoul''" and owner = "''Alice''" and st = stub0 and u = unbound0]
  by (simp add: eval_defs)

subsection \<open>Validation before any write\<close>

text \<open>
  Claim C2 says that every create or transfer operation with a wrong argument count or an
  empty required argument returns a validation error and leaves the ledger unchanged.
  \<open>initProperty\<close> refuses an empty owner (\<open>4th argument must be a non-empty string\<close>),
  and each create operation checks every argument before its write. \<open>transferProperty\<close>
  misses the check: with an empty new owner, on the ledger holding the property \<open>p1\<close>, it
  returns success and rewrites the record with the empty owner, a record that the creation
  refuses to write.
\<close>

theorem transferProperty_empty_owner_writes:
  "[] \<in> set [''p1'', '''']
   \<and> transferProperty stub1 [''p1'', ''''] =
       (Success None, stub1\<lparr>world := [''p1'' \<mapsto> Marshal_property (islab\<lparr>Owner := ''''\<rparr>)]\<rparr>)
   \<and> world stub1 ''p1'' = Some (Marshal_property islab)
   \<and> Marshal_property (islab\<lparr>Owner := ''''\<rparr>) \<noteq> Marshal_property islab"
  using transferProperty_stored [of stub1 "''p1''" islab "''''" "[]"]
  by (simp add: eval_defs)

text \<open>
  The sibling paths: each of the three create operations answers a wrong argument count or
  an empty argument with one of its validation messages and returns the stub it was given,
  so nothing is written. \<open>transferProperty\<close> does so only when it has fewer than two
  arguments.
\<close>

theorem validation_failure_writes_nothing:
  "(length args4 \<noteq> 4 \<or> [] \<in> set args4 \<longrightarrow>
      (\<exists>msg. initProperty st args4 = (Error msg, st)
         \<and> msg \<in> {''Incorrect number of arguments. Expecting 4'',
                  ''1st argument must be a non-empty string'',
                  ''2nd argument must be a non-empty string'',
                  ''3rd argument must be a non-empty string'',
                  ''4th argument must be a non-empty string''}))
   \<and> (length args5 \<noteq> 5 \<or> [] \<in> set args5 \<longrightarrow>
      (\<exists>msg. initConditon st args5 = (Error msg, st)
         \<and> msg \<in> {''Incorrect number of arguments. Expecting 5'',
                  ''1st argument must be a non-empty string'',
                  ''2nd argument must be a non-empty string'',
                  ''3rd argument must be a non-empty string'',
                  ''4th argument must be a non-empty string'',
                  ''5th argument must be a non-empty string''}))
   \<and> (length args2 \<noteq> 2 \<or> [] \<in> set args2 \<longrightarrow>
      (\<exists>msg. CreateContract u st args2 = (Error msg, st)
         \<and> msg \<in> {''Incorrect number of arguments. Expecting 2'',
                  ''1st argument must be a non-empty string'',
                  ''2nd argument must be a non-empty string''}))
   \<and> (length argsT < 2 \<longrightarrow>
      transferProperty st argsT = (Error ''Incorrect number of arguments. Expecting 2'', st))"
  using initProperty_invalid [of args4 st] initConditon_invalid [of args5 st]
    CreateContract_invalid [of args2 u st]
  by (simp add: transferProperty_def)

theorem validation_failure_writes_nothing_witness:
  "(\<exists>msg. initProperty stub1 [''p1'', '''', ''seoul'', ''alice''] = (Error msg, stub1)
         \<and> msg \<in> {''Incorrect number of arguments. Expecting 4'',
                  ''1st argument must be a non-empty string'',
                  ''2nd argument must be a non-empty string'',
                  ''3rd argument must be a non-empty string'',
                  ''4th argument must be a non-empty string''})
   \<and> (\<exists>msg. initConditon stub1 [''c1''] = (Error msg, stub1)
         \<and> msg \<in> {''Incorrect number of arguments. Expecting 5'',
                  ''1st argument must be a non-empty string'',
                  ''2nd argument must be a non-empty string'',
                  ''3rd argument must be a non-empty string'',
                  ''4th argument must be a non-empty string'',
                  ''5th argument must be a non-empty string''})
   \<and> (\<exists>msg. CreateContract unbound0 stub1 [''k1'', ''''] = (Error msg, stub1)
         \<and> msg \<in> {''Incorrect number of arguments. Expecting 2'',
                  ''1st argument must be a non-empty string'',
                  ''2nd argument must be a non-empty string''})
   \<and> transferProperty stub1 [''p1''] =
       (Error ''Incorrect number of arguments. Expecting 2'', stub1)"
  using validation_failure_writes_nothing [of "[''p1'', '''', ''seoul'', ''alice'']" stub1
      "[''c1'']" "[''k1'', '''']" unbound0 "[''p1'']"]
  by simp

subsection \<open>Transfer of ownership\<close>

text \<open>
  Claim C3. On a ledger that answers the read of the key, \<open>transferProperty\<close> with the
  arguments \<open>propertyNum\<close> and \<open>newOwner\<close>: when the key holds the document of a property
  record \<open>p\<close> (and the ledger accepts the write), it succeeds and the only change is that
  the key now holds the document of the record with the \<open>docType\<close>, \<open>property_num\<close>,
  \<open>name\<close> and \<open>address\<close> of \<open>p\<close> and the lower-cased new owner; when the key holds
  nothing, it returns the error \<open>Property does not exist\<close> and the stub it was given.
\<close>

theorem transferProperty_sets_owner_only:
  assumes "getFails st propertyNum = None"
  shows "(world st propertyNum = Some (Marshal_property p)
          \<and> putFails st propertyNum (Marshal_property (p\<lparr>Owner := ToLower newOwner\<rparr>)) = None
          \<longrightarrow> transferProperty st [propertyNum, newOwner] =
                (Success None,
                 st\<lparr>world := (world st)(propertyNum \<mapsto> Marshal_property
                    \<lparr>ObjectType = ObjectType p, Property_num = Property_num p,
                       Name = Name p, Address = Address p, Owner = ToLower newOwner\<rparr>)\<rparr>))
       \<and> (world st propertyNum = None
          \<longrightarrow> transferProperty st [propertyNum, newOwner] =
                (Error ''Property does not exist'', st))"
proof -
  have eq: "\<lparr>ObjectType = ObjectType p, Property_num = Property_num p,
               Name = Name p, Address = Address p, Owner = ToLower newOwner\<rparr>
            = p\<lparr>Owner := ToLower newOwner\<rparr>"
    by (cases p) simp
  show ?thesis
    unfolding eq
    using assms transferProperty_stored [of st propertyNum p newOwner "[]"]
      transferProperty_absent [of st propertyNum newOwner "[]"]
    by simp
qed

theorem transferProperty_sets_owner_only_witness:
  "transferProperty stub1 [''p1'', ''Bob''] =
     (Success None,
      stub1\<lparr>world := [''p1'' \<mapsto> Marshal_property
         \<lparr>ObjectType = ''property'', Property_num = ''p1'', Name = ''islab'',
            Address = ''seoul'', Owner = ''bob''\<rparr>]\<rparr>)
   \<and> transferProperty stub1 [''p2'', ''Bob''] = (Error ''Property does not exist'', stub1)"
  using transferProperty_sets_owner_only [of stub1 "''p1''" islab "''Bob''"]
    transferProperty_sets_owner_only [of stub1 "''p2''" islab "''Bob''"]
  by (simp add: eval_defs)

text \<open>
  Claim C10. On a ledger that answers the read and accepts the write, \<open>transferProperty\<close>
  with exactly the two arguments \<open>k\<close> and the empty string, where \<open>k\<close> holds the document
  of a property record \<open>p\<close>, succeeds and writes \<open>p\<close> back with the empty owner: the new
  owner is not checked for emptiness.
\<close>

theorem transferProperty_accepts_empty_owner:
  assumes "world st k = Some (Marshal_property p)"
    and "getFails st k = None"
    and "putFails st k (Marshal_property (p\<lparr>Owner := ''''\<rparr>)) = None"
  shows "transferProperty st [k, ''''] =
           (Success None, st\<lparr>world := (world st)(k \<mapsto> Marshal_property (p\<lparr>Owner := ''''\<rparr>))\<rparr>)"
  using assms transferProperty_stored [of st k p "''''" "[]"]
  by (simp add: ToLower_def)

theorem transferProperty_accepts_empty_owner_witness:
  "transferProperty stub1 [''p1'', ''''] =
     (Success None,
      stub1\<lparr>world := [''p1'' \<mapsto> Marshal_property
         \<lparr>ObjectType = ''property'', Property_num = ''p1'', Name = ''islab'',
            Address = ''seoul'', Owner = ''''\<rparr>]\<rparr>)"
  using transferProperty_accepts_empty_owner [of stub1 "''p1''" islab]
  by (simp add: eval_defs)

text \<open>
  Claim C5 says that every operation compares the argument count with its arity for
  equality, so that \<open>transferProperty\<close> with three arguments fails. The guard of
  \<open>transferProperty\<close> is \<open>len(args) < 2\<close>: on the ledger holding the property \<open>p1\<close>,
  the call with the three arguments \<open>p1\<close>, \<open>bob\<close>, \<open>extra\<close> succeeds and rewrites the
  owner.
\<close>

theorem transferProperty_three_arguments_succeeds:
  "transferProperty stub1 [''p1'', ''bob'', ''extra''] =
     (Success None,
      stub1\<lparr>world := [''p1'' \<mapsto> Marshal_property (islab\<lparr>Owner := ''bob''\<rparr>)]\<rparr>)"
  using transferProperty_stored [of stub1 "''p1''" islab "''bob''" "[''extra'']"]
  by (simp add: eval_defs)

text \<open>
  Claim C8 says that a transfer whose property number differs from the created one only
  in letter case reaches the same record. \<open>initProperty\<close> stores the record under the
  lower-cased number, \<open>transferProperty\<close> looks its first argument up as it is: after the
  creation with the number \<open>P1\<close> on the empty ledger, the transfer of \<open>P1\<close> finds
  nothing.
\<close>

theorem transferProperty_key_not_lowercased:
  "initProperty stub0 [''P1'', ''islab'', ''seoul'', ''alice''] = (Success None, stub1)
   \<and> transferProperty stub1 [''P1'', ''bob''] = (Error ''Property does not exist'', stub1)"
  using transferProperty_absent [of stub1 "''P1''" "''bob''" "[]"]
    initProperty_valid [of "''P1''" "''islab''" "''seoul''" "''alice''" stub0]
  by (simp add: eval_defs)

subsection \<open>Creation on a key that is taken\<close>




subsection \<open>Dispatch\<close>

text \<open>
  Claim C6, as stated: for a function name outside the router's mapping the error message
  names that function. \<open>Invoke\<close> returns one fixed message for every such name (the name
  goes to the log only): for \<open>deleteEverything\<close> the message does not contain the name.
\<close>

theorem Invoke_unknown_message_lacks_name:
  "Invoke unbound0 stub1 ''deleteEverything'' [] =
     (Error ''Received unknown function invocation'', stub1)
   \<and> \<not> sublist ''deleteEverything'' ''Received unknown function invocation''"
proof -
  have "\<not> sublist ''deleteEverything'' ''Received unknown function invocation''"
    by code_simp
  then show ?thesis
    by (simp add: Invoke_def)
qed

text \<open>
  Claim C6, amended. For every function name other than the five of the router, \<open>Invoke\<close>
  returns the error \<open>Received unknown function invocation\<close>, the same for every name, and
  the stub it was given: no success, no write.
\<close>

theorem Invoke_unknown_function:
  assumes "function \<notin> {''initProperty'', ''initConditon'', ''CreateContract'',
                        ''transferProperty'', ''readValue''}"
  shows "Invoke u st function args = (Error ''Received unknown function invocation'', st)"
  using assms by (simp add: Invoke_def)

theorem Invoke_unknown_function_witness:
  "Invoke unbound0 stub1 ''deleteEverything'' [''p1''] =
     (Error ''Received unknown function invocation'', stub1)"
  using Invoke_unknown_function [of "''deleteEverything''" unbound0 stub1 "[''p1'']"]
  by simp

text \<open>
  Claim C7, as stated: the router knows the names \<open>initCondition\<close> and \<open>createContract\<close>.
  The names it compares with are \<open>initConditon\<close> and \<open>CreateContract\<close>: the spec's two
  names, with valid arguments, get the answer for an unknown function and write nothing.
\<close>

theorem Invoke_rejects_spec_names:
  "Invoke unbound0 stub0 ''initCondition'' [''c1'', ''p1'', ''alice'', ''bob'', ''5000000''] =
     (Error ''Received unknown function invocation'', stub0)
   \<and> Invoke unbound0 stub0 ''createContract'' [''k1'', ''c1''] =
     (Error ''Received unknown function invocation'', stub0)"
  by (simp add: Invoke_def)

text \<open>
  Claim C7, amended. The router knows exactly the five names \<open>initProperty\<close>,
  \<open>initConditon\<close>, \<open>CreateContract\<close>, \<open>transferProperty\<close> and \<open>readValue\<close>: each is
  answered by the operation of that name, every other name by the error for an unknown
  function. On a ledger that accepts the write, \<open>initConditon\<close> with five non-empty
  arguments, the fifth numeric, is dispatched to the creation of the condition and
  succeeds, and \<open>CreateContract\<close> with two non-empty arguments is dispatched to the
  creation of the contract and succeeds.
\<close>

theorem Invoke_routes:
  "Invoke u st ''initProperty'' args = initProperty st args
   \<and> Invoke u st ''initConditon'' args = initConditon st args
   \<and> Invoke u st ''CreateContract'' args = CreateContract u st args
   \<and> Invoke u st ''transferProperty'' args = transferProperty st args
   \<and> Invoke u st ''readValue'' args = readValue u st args
   \<and> (function \<notin> {''initProperty'', ''initConditon'', ''CreateContract'',
                     ''transferProperty'', ''readValue''}
      \<longrightarrow> Invoke u st function args = (Error ''Received unknown function invocation'', st))
   \<and> (a \<noteq> [] \<and> b \<noteq> [] \<and> c \<noteq> [] \<and> d \<noteq> [] \<and> Atoi e = Some n
      \<and> putFails st (ToLower a) (Marshal_condition
           \<lparr>cObjectType = ''condition'', Condition_num = ToLower a, cProperty_num = ToLower b,
              Seller = ToLower c, Buyer = ToLower d, Deposit = n\<rparr>) = None
      \<longrightarrow> Invoke u st ''initConditon'' [a, b, c, d, e] =
            (Success None,
             st\<lparr>world := (world st)(ToLower a \<mapsto> Marshal_condition
                \<lparr>cObjectType = ''condition'', Condition_num = ToLower a,
                   cProperty_num = ToLower b, Seller = ToLower c, Buyer = ToLower d,
                   Deposit = n\<rparr>)\<rparr>))
   \<and> (k \<noteq> [] \<and> l \<noteq> []
      \<and> putFails st (ToLower k) (Marshal_condition
           \<lparr>cObjectType = ''contract'', Condition_num = u_conditionNum u,
              cProperty_num = ToLower l, Seller = u_seller u, Buyer = u_buyer u,
              Deposit = u_deposit u\<rparr>) = None
      \<longrightarrow> Invoke u st ''CreateContract'' [k, l] =
            (Success None,
             st\<lparr>world := (world st)(ToLower k \<mapsto> Marshal_condition
                \<lparr>cObjectType = ''contract'', Condition_num = u_conditionNum u,
                   cProperty_num = ToLower l, Seller = u_seller u, Buyer = u_buyer u,
                   Deposit = u_deposit u\<rparr>)\<rparr>))"
  using initConditon_valid [of a b c d e n st] CreateContract_valid [of k l st u]
  by (simp add: Invoke_def)

theorem Invoke_routes_witness:
  "Invoke unbound0 stub0 ''deleteEverything'' [''p1''] =
     (Error ''Received unknown function invocation'', stub0)
   \<and> Invoke unbound0 stub0 ''initConditon'' [''C1'', ''P1'', ''Alice'', ''Bob'', ''5000000''] =
     (Success None,
      stub0\<lparr>world := [''c1'' \<mapsto> Marshal_condition
         \<lparr>cObjectType = ''condition'', Condition_num = ''c1'', cProperty_num = ''p1'',
            Seller = ''alice'', Buyer = ''bob'', Deposit = 5000000\<rparr>]\<rparr>)
   \<and> Invoke unbound0 stub0 ''CreateContract'' [''K1'', ''C1''] =
     (Success None,
      stub0\<lparr>world := [''k1'' \<mapsto> Marshal_condition
         \<lparr>cObjectType = ''contract'', Condition_num = '''', cProperty_num = ''c1'',
            Seller = '''', Buyer = '''', Deposit = 0\<rparr>]\<rparr>)"
  using Invoke_routes [of unbound0 stub0 "[''p1'']" "''deleteEverything''" "''C1''" "''P1''"
      "''Alice''" "''Bob''" "''5000000''" 5000000 "''K1''" "''C1''"]
  by (simp add: eval_defs Atoi_def isDigit_def digitVal_def)

subsection \<open>The deposit of a condition\<close>

text \<open>
  Claim C9, as stated: a fifth argument that parses to a negative integer is answered with
  a validation error and nothing is written. \<open>initConditon\<close> checks only that
  \<open>strconv.Atoi\<close> has no error: with the deposit \<open>-5\<close> on the empty ledger it succeeds
  and stores the condition with that deposit.
\<close>

theorem initConditon_negative_deposit_stored:
  "Atoi ''-5'' = Some (- 5)
   \<and> initConditon stub0 [''c1'', ''p1'', ''alice'', ''bob'', ''-5''] =
     (Success None,
      stub0\<lparr>world := [''c1'' \<mapsto> Marshal_condition
         \<lparr>cObjectType = ''condition'', Condition_num = ''c1'', cProperty_num = ''p1'',
            Seller = ''alice'', Buyer = ''bob'', Deposit = - 5\<rparr>]\<rparr>)"
proof -
  have "Atoi ''-5'' = Some (- 5)"
    by (simp add: Atoi_def isDigit_def digitVal_def)
  then show ?thesis
    using initConditon_valid [of "''c1''" "''p1''" "''alice''" "''bob''" "''-5''" "- 5" stub0]
    by (simp add: eval_defs)
qed

text \<open>
  Claim C9, amended. \<open>initConditon\<close> requires its deposit argument to parse as an integer
  (\<open>strconv.Atoi\<close>, either sign). With five non-empty arguments: when the fifth does not
  parse, the answer is the error \<open>5th argument must be a numeric string\<close> and the stub
  is the one given, so nothing is written; when it parses to a negative integer (and the
  ledger accepts the write) the call succeeds and the condition is stored with that
  negative deposit.
\<close>

theorem initConditon_deposit:
  assumes "a \<noteq> []" and "b \<noteq> []" and "c \<noteq> []" and "d \<noteq> []" and "e \<noteq> []"
  shows "(Atoi e = None
          \<longrightarrow> initConditon st [a, b, c, d, e] =
                (Error ''5th argument must be a numeric string'', st))
       \<and> (Atoi e = Some n \<and> n < 0
          \<and> putFails st (ToLower a) (Marshal_condition
               \<lparr>cObjectType = ''condition'', Condition_num = ToLower a,
                  cProperty_num = ToLower b, Seller = ToLower c, Buyer = ToLower d,
                  Deposit = n\<rparr>) = None
          \<longrightarrow> initConditon st [a, b, c, d, e] =
                (Success None,
                 st\<lparr>world := (world st)(ToLower a \<mapsto> Marshal_condition
                    \<lparr>cObjectType = ''condition'', Condition_num = ToLower a,
                       cProperty_num = ToLower b, Seller = ToLower c, Buyer = ToLower d,
                       Deposit = n\<rparr>)\<rparr>))"
proof -
  have "Atoi e = None \<Longrightarrow>
        initConditon st [a, b, c, d, e] = (Error ''5th argument must be a numeric string'', st)"
    using assms by (simp add: initConditon_def)
  then show ?thesis
    using assms initConditon_valid [of a b c d e n st] by simp
qed

theorem initConditon_deposit_witness:
  "initConditon stub1 [''c1'', ''p1'', ''alice'', ''bob'', ''notanumber''] =
     (Error ''5th argument must be a numeric string'', stub1)
   \<and> initConditon stub0 [''c1'', ''p1'', ''alice'', ''bob'', ''-5''] =
     (Success None,
      stub0\<lparr>world := [''c1'' \<mapsto> Marshal_condition
         \<lparr>cObjectType = ''condition'', Condition_num = ''c1'', cProperty_num = ''p1'',
            Seller = ''alice'', Buyer = ''bob'', Deposit = - 5\<rparr>]\<rparr>)"
  using initConditon_deposit [of "''c1''" "''p1''" "''alice''" "''bob''" "''notanumber''"
      stub1 "- 5"]
    initConditon_deposit [of "''c1''" "''p1''" "''alice''" "''bob''" "''-5''" stub0 "- 5"]
  by (simp add: eval_defs Atoi_def isDigit_def digitVal_def)

end
